theory Spec2Isabelle
  imports Main "HOL-Library.Word"
begin

unbundle bit_operations_syntax

section \<open>JavaScript strings\<close>

text \<open>
  A JavaScript string is modelled as a \<^typ>\<open>string\<close> whose characters are the code
  units \<open>U+0000\<close> .. \<open>U+00FF\<close>.  Node presents header values, the request line and
  hence \<open>req.originalUrl\<close> in exactly this range (one code unit per received byte),
  so the model is exact on everything that arrives in the request head.  Configuration
  values and JSON strings with code units from \<open>U+0100\<close> on are outside the model.
\<close>

definition code_unit :: "char \<Rightarrow> nat" where
  "code_unit c = of_char c"

text \<open>\<open>a || b\<close> on strings: the empty string is the only falsy string.\<close>

definition or_str :: "string \<Rightarrow> string \<Rightarrow> string" where
  "or_str a b = (if a = [] then b else a)"

text \<open>\<open>x || ""\<close> where \<open>x\<close> is a string or \<open>undefined\<close>.\<close>

definition or_empty :: "string option \<Rightarrow> string" where
  "or_empty x = (case x of None \<Rightarrow> [] | Some s \<Rightarrow> s)"

text \<open>
  ECMAScript \<open>WhiteSpace\<close> and \<open>LineTerminator\<close> code points below \<open>U+0100\<close>:
  TAB, LF, VT, FF, CR, SP and NBSP.
\<close>

definition is_js_space :: "char \<Rightarrow> bool" where
  "is_js_space c = (c \<in> set [CHR 0x09, CHR 0x0A, CHR 0x0B, CHR 0x0C, CHR 0x0D, CHR 0x20, CHR 0xA0])"

definition trim :: "string \<Rightarrow> string" where
  "trim s = rev (dropWhile is_js_space (rev (dropWhile is_js_space s)))"

definition lower_char :: "char \<Rightarrow> char" where
  "lower_char c =
     (let n = code_unit c in
      if (65 \<le> n \<and> n \<le> 90) \<or> (192 \<le> n \<and> n \<le> 222 \<and> n \<noteq> 215)
      then char_of (n + 32) else c)"

definition toLowerCase :: "string \<Rightarrow> string" where
  "toLowerCase s = map lower_char s"

text \<open>
  \<open>toUpperCase\<close> is applied to \<open>req.method\<close> only, an HTTP token and therefore ASCII.
  The three code units below \<open>U+0100\<close> whose upper-case form leaves the range
  (\<open>U+00B5\<close>, \<open>U+00DF\<close>, \<open>U+00FF\<close>) are left as they are.
\<close>

definition upper_char :: "char \<Rightarrow> char" where
  "upper_char c =
     (let n = code_unit c in
      if (97 \<le> n \<and> n \<le> 122) \<or> (224 \<le> n \<and> n \<le> 254 \<and> n \<noteq> 247)
      then char_of (n - 32) else c)"

definition toUpperCase :: "string \<Rightarrow> string" where
  "toUpperCase s = map upper_char s"

definition startsWith :: "string \<Rightarrow> string \<Rightarrow> bool" where
  "startsWith s p = (take (length p) s = p)"

text \<open>\<open>s.replace(/^p/, "")\<close> for a literal \<open>p\<close>: removes \<open>p\<close> when \<open>s\<close> starts with it.\<close>

definition replace_prefix :: "string \<Rightarrow> string \<Rightarrow> string" where
  "replace_prefix p s = (if startsWith s p then drop (length p) s else s)"

text \<open>\<open>s.split(c)\<close> for a one-character separator: always at least one piece.\<close>

fun split :: "char \<Rightarrow> string \<Rightarrow> string list" where
  "split c [] = [[]]"
| "split c (x # xs) =
     (if x = c then [] # split c xs
      else (case split c xs of [] \<Rightarrow> [[x]] | p # ps \<Rightarrow> (x # p) # ps))"

text \<open>Decimal rendering of a non-negative integer (\<open>Date.now().toString()\<close>).\<close>

definition digit_char :: "nat \<Rightarrow> char" where
  "digit_char d = char_of (48 + d)"

fun decimal :: "nat \<Rightarrow> string" where
  "decimal n = (if n < 10 then [digit_char n] else decimal (n div 10) @ [digit_char (n mod 10)])"

declare decimal.simps [simp del]

section \<open>SHA-256, HMAC and hex encoding (Node's \<open>crypto\<close> module)\<close>

type_synonym byte = "8 word"
type_synonym w32 = "32 word"

text \<open>UTF-8 encoding of a string of code units below \<open>U+0100\<close>.\<close>

definition utf8_char :: "char \<Rightarrow> byte list" where
  "utf8_char c =
     (let n = code_unit c in
      if n < 128 then [of_nat n] else [of_nat (192 + n div 64), of_nat (128 + n mod 64)])"

definition utf8 :: "string \<Rightarrow> byte list" where
  "utf8 s = concat (map utf8_char s)"

definition rotr :: "nat \<Rightarrow> w32 \<Rightarrow> w32" where
  "rotr n x = drop_bit n x OR push_bit (32 - n) x"

definition Ch :: "w32 \<Rightarrow> w32 \<Rightarrow> w32 \<Rightarrow> w32" where
  "Ch x y z = (x AND y) XOR (NOT x AND z)"

definition Maj :: "w32 \<Rightarrow> w32 \<Rightarrow> w32 \<Rightarrow> w32" where
  "Maj x y z = (x AND y) XOR (x AND z) XOR (y AND z)"

definition bsig0 :: "w32 \<Rightarrow> w32" where
  "bsig0 x = rotr 2 x XOR rotr 13 x XOR rotr 22 x"

definition bsig1 :: "w32 \<Rightarrow> w32" where
  "bsig1 x = rotr 6 x XOR rotr 11 x XOR rotr 25 x"

definition ssig0 :: "w32 \<Rightarrow> w32" where
  "ssig0 x = rotr 7 x XOR rotr 18 x XOR drop_bit 3 x"

definition ssig1 :: "w32 \<Rightarrow> w32" where
  "ssig1 x = rotr 17 x XOR rotr 19 x XOR drop_bit 10 x"

text \<open>
  The round constants: the first 32 bits of the fractional parts of the cube roots of
  the first 64 primes; the initial hash value: the same of the square roots of the
  first 8 primes.
\<close>

definition K256 :: "w32 list" where
  "K256 =
  [1116352408, 1899447441, 3049323471, 3921009573,
   961987163, 1508970993, 2453635748, 2870763221,
   3624381080, 310598401, 607225278, 1426881987,
   1925078388, 2162078206, 2614888103, 3248222580,
   3835390401, 4022224774, 264347078, 604807628,
   770255983, 1249150122, 1555081692, 1996064986,
   2554220882, 2821834349, 2952996808, 3210313671,
   3336571891, 3584528711, 113926993, 338241895,
   666307205, 773529912, 1294757372, 1396182291,
   1695183700, 1986661051, 2177026350, 2456956037,
   2730485921, 2820302411, 3259730800, 3345764771,
   3516065817, 3600352804, 4094571909, 275423344,
   430227734, 506948616, 659060556, 883997877,
   958139571, 1322822218, 1537002063, 1747873779,
   1955562222, 2024104815, 2227730452, 2361852424,
   2428436474, 2756734187, 3204031479, 3329325298]"

definition H256 :: "w32 list" where
  "H256 =
  [1779033703, 3144134277, 1013904242, 2773480762,
   1359893119, 2600822924, 528734635, 1541459225]"

fun be_words :: "byte list \<Rightarrow> w32 list" where
  "be_words (a # b # c # d # r) =
     (push_bit 24 (ucast a) OR push_bit 16 (ucast b) OR push_bit 8 (ucast c) OR ucast d) # be_words r"
| "be_words _ = []"

definition be_bytes :: "w32 \<Rightarrow> byte list" where
  "be_bytes w = [ucast (drop_bit 24 w), ucast (drop_bit 16 w), ucast (drop_bit 8 w), ucast w]"

text \<open>Message schedule: sixteen block words extended to sixty-four.\<close>

fun schedule :: "nat \<Rightarrow> w32 list \<Rightarrow> w32 list" where
  "schedule 0 w = w"
| "schedule (Suc n) w =
     (let t = length w in
      schedule n (w @ [ssig1 (w ! (t - 2)) + w ! (t - 7) + ssig0 (w ! (t - 15)) + w ! (t - 16)]))"

fun sha_round :: "w32 list \<Rightarrow> w32 \<times> w32 \<Rightarrow> w32 list" where
  "sha_round [a, b, c, d, e, f, g, h] (k, w) =
     (let t1 = h + bsig1 e + Ch e f g + k + w;
          t2 = bsig0 a + Maj a b c
      in [t1 + t2, a, b, c, d + t1, e, f, g])"
| "sha_round s _ = s"

definition compress :: "w32 list \<Rightarrow> byte list \<Rightarrow> w32 list" where
  "compress hs block =
     map2 (+) hs (foldl sha_round hs (zip K256 (schedule 48 (be_words block))))"

text \<open>The message length in bits as a 64-bit big-endian integer.\<close>

definition length_bytes :: "nat \<Rightarrow> byte list" where
  "length_bytes n = map (\<lambda>i. ucast (drop_bit (8 * (7 - i)) (of_nat n :: 64 word))) [0..<8]"

definition pad :: "byte list \<Rightarrow> byte list" where
  "pad m = m @ [0x80] @ replicate ((119 - length m mod 64) mod 64) 0 @ length_bytes (8 * length m)"

definition blocks :: "byte list \<Rightarrow> byte list list" where
  "blocks m = map (\<lambda>i. take 64 (drop (64 * i) m)) [0..<length m div 64]"

definition sha256 :: "byte list \<Rightarrow> byte list" where
  "sha256 m = concat (map be_bytes (foldl compress H256 (blocks (pad m))))"

text \<open>HMAC (RFC 2104) over SHA-256, block size 64.\<close>

definition hmac_key :: "byte list \<Rightarrow> byte list" where
  "hmac_key k =
     (let k' = (if length k > 64 then sha256 k else k) in k' @ replicate (64 - length k') 0)"

definition hmac_sha256 :: "byte list \<Rightarrow> byte list \<Rightarrow> byte list" where
  "hmac_sha256 k m =
     (let k0 = hmac_key k
      in sha256 (map (\<lambda>b. b XOR 0x5c) k0 @ sha256 (map (\<lambda>b. b XOR 0x36) k0 @ m)))"

definition hex_digit :: "nat \<Rightarrow> char" where
  "hex_digit d = ''0123456789abcdef'' ! d"

definition hex_byte :: "byte \<Rightarrow> string" where
  "hex_byte b = [hex_digit (unat b div 16), hex_digit (unat b mod 16)]"

definition hex :: "byte list \<Rightarrow> string" where
  "hex bs = concat (map hex_byte bs)"

text \<open>
  The \<open>Hmac\<close> object of Node's \<open>crypto\<close>: \<open>createHmac("sha256", key)\<close> fixes the key,
  \<open>update(data)\<close> appends the UTF-8 bytes of \<open>data\<close>, \<open>digest("hex")\<close> finishes.
\<close>

record Hmac =
  hmac_secret :: "byte list"
  hmac_data :: "byte list"

definition createHmac_sha256 :: "string \<Rightarrow> Hmac" where
  "createHmac_sha256 key = \<lparr>hmac_secret = utf8 key, hmac_data = []\<rparr>"

definition update :: "Hmac \<Rightarrow> string \<Rightarrow> Hmac" where
  "update h s = h\<lparr>hmac_data := hmac_data h @ utf8 s\<rparr>"

definition digest_hex :: "Hmac \<Rightarrow> string" where
  "digest_hex h = hex (hmac_sha256 (hmac_secret h) (hmac_data h))"

section \<open>\<open>signBybit\<close>\<close>

record signing_input =
  timestamp :: string
  apiKey :: string
  secret :: string
  recvWindow :: string
  payload :: string

definition signStr :: "signing_input \<Rightarrow> string" where
  "signStr i = timestamp i @ apiKey i @ recvWindow i @ payload i"

definition signBybit :: "signing_input \<Rightarrow> string" where
  "signBybit i = digest_hex (update (createHmac_sha256 (secret i)) (signStr i))"

section \<open>\<open>JSON.stringify\<close>\<close>

text \<open>
  A value that the body parsers leave in \<open>req.body\<close>.  A number carries the text that
  \<open>JSON.stringify\<close> emits for it; the members of an object are listed in the order
  in which the object enumerates them; strings are strings of code units below
  \<open>U+0100\<close>, as everywhere in this model.
\<close>

datatype json =
    JNull
  | JBool bool
  | JNum string
  | JStr string
  | JArr "json list"
  | JObj "(string \<times> json) list"

definition quote_char :: "char \<Rightarrow> string" where
  "quote_char c =
     (let n = code_unit c in
      if n = 8 then [CHR 0x5C, CHR ''b'']
      else if n = 9 then [CHR 0x5C, CHR ''t'']
      else if n = 10 then [CHR 0x5C, CHR ''n'']
      else if n = 12 then [CHR 0x5C, CHR ''f'']
      else if n = 13 then [CHR 0x5C, CHR ''r'']
      else if n = 34 then [CHR 0x5C, CHR 0x22]
      else if n = 92 then [CHR 0x5C, CHR 0x5C]
      else if n < 32 then [CHR 0x5C, CHR ''u'', CHR ''0'', CHR ''0'', hex_digit (n div 16), hex_digit (n mod 16)]
      else [c])"

definition QuoteJSONString :: "string \<Rightarrow> string" where
  "QuoteJSONString s = [CHR 0x22] @ concat (map quote_char s) @ [CHR 0x22]"

text \<open>\<open>xs.join(",")\<close>\<close>

fun join_comma :: "string list \<Rightarrow> string" where
  "join_comma [] = []"
| "join_comma [x] = x"
| "join_comma (x # y # r) = x @ '','' @ join_comma (y # r)"

fun JSON_stringify :: "json \<Rightarrow> string" where
  "JSON_stringify JNull = ''null''"
| "JSON_stringify (JBool b) = (if b then ''true'' else ''false'')"
| "JSON_stringify (JNum n) = n"
| "JSON_stringify (JStr s) = QuoteJSONString s"
| "JSON_stringify (JArr xs) = ''['' @ join_comma (map JSON_stringify xs) @ '']''"
| "JSON_stringify (JObj kvs) =
     ''{'' @ join_comma (map (\<lambda>kv. QuoteJSONString (fst kv) @ '':'' @ JSON_stringify (snd kv)) kvs) @ ''}''"

text \<open>\<open>x ?? {}\<close>: the empty object replaces \<open>undefined\<close> and \<open>null\<close>, nothing else.\<close>

definition nullish_empty_object :: "json option \<Rightarrow> json" where
  "nullish_empty_object b = (case b of None \<Rightarrow> JObj [] | Some JNull \<Rightarrow> JObj [] | Some v \<Rightarrow> v)"

section \<open>Process configuration\<close>

text \<open>\<open>process.env\<close>, read once when the module is loaded.\<close>

type_synonym process_env = "string \<Rightarrow> string option"

text \<open>\<open>(process.env.NAME || dflt).trim()\<close>\<close>

definition env_trim :: "process_env \<Rightarrow> string \<Rightarrow> string \<Rightarrow> string" where
  "env_trim env name dflt = trim (or_str (or_empty (env name)) dflt)"

definition PROXY_TOKEN :: "process_env \<Rightarrow> string" where
  "PROXY_TOKEN env = env_trim env ''PROXY_TOKEN'' []"

definition BYBIT_MAINNET :: string where
  "BYBIT_MAINNET = ''https://api.bybit.com''"

definition BYBIT_DEMO :: string where
  "BYBIT_DEMO = ''https://api-demo-testnet.bybit.com''"

definition MAIN_KEY :: "process_env \<Rightarrow> string" where
  "MAIN_KEY env = env_trim env ''BYBIT_MAINNET_API_KEY'' []"

definition MAIN_SECRET :: "process_env \<Rightarrow> string" where
  "MAIN_SECRET env = env_trim env ''BYBIT_MAINNET_SECRET'' []"

definition DEMO_KEY :: "process_env \<Rightarrow> string" where
  "DEMO_KEY env = env_trim env ''BYBIT_DEMO_API_KEY'' []"

definition DEMO_SECRET :: "process_env \<Rightarrow> string" where
  "DEMO_SECRET env = env_trim env ''BYBIT_DEMO_SECRET'' []"

definition RECV_WINDOW :: "process_env \<Rightarrow> string" where
  "RECV_WINDOW env = env_trim env ''BYBIT_RECV_WINDOW'' ''5000''"

section \<open>Requests, responses and errors\<close>

text \<open>
  \<open>req.query.env\<close> as the query parser leaves it: a string, an array (a repeated
  parameter) or an object (a bracketed parameter).
\<close>

datatype qval = QStr string | QArr "qval list" | QObj

fun qval_toString :: "qval \<Rightarrow> string" where
  "qval_toString (QStr s) = s"
| "qval_toString (QArr xs) = join_comma (map qval_toString xs)"
| "qval_toString QObj = ''[object Object]''"

text \<open>
  The inbound request.  \<open>req_headers\<close> is Node's \<open>req.headers\<close>, keyed by lower-case
  header name; \<open>req_body\<close> is \<open>None\<close> when \<open>req.body\<close> is \<open>undefined\<close>.
\<close>

record request =
  req_method :: string
  originalUrl :: string
  req_headers :: "string \<Rightarrow> string option"
  query_env :: "qval option"
  req_body :: "json option"

text \<open>\<open>req.header(name)\<close> and \<open>req.get(name)\<close>: lookup under the lower-cased name.\<close>

definition header :: "request \<Rightarrow> string \<Rightarrow> string option" where
  "header req name = req_headers req (toLowerCase name)"

text \<open>A thrown \<open>Error\<close>: its \<open>name\<close> and its \<open>message\<close>.\<close>

datatype js_error = JsError string string

definition new_Error :: "string \<Rightarrow> js_error" where
  "new_Error msg = JsError ''Error'' msg"

fun message :: "js_error \<Rightarrow> string" where
  "message (JsError n m) = m"

text \<open>\<open>String(e)\<close>, that is \<open>Error.prototype.toString\<close>.\<close>

fun String_of_error :: "js_error \<Rightarrow> string" where
  "String_of_error (JsError n m) = (if n = [] then m else if m = [] then n else n @ '': '' @ m)"

text \<open>
  What the handler writes: \<open>res.status(s).json(v)\<close> or
  \<open>res.status(s).set("Content-Type", ct).send(text)\<close>.
\<close>

datatype response = Json nat json | Sent nat string string

text \<open>The \<open>catch\<close> block: \<open>res.status(500).json({ error: e?.message || String(e) })\<close>\<close>

definition catch_response :: "js_error \<Rightarrow> response" where
  "catch_response e = Json 500 (JObj [(''error'', JStr (or_str (message e) (String_of_error e)))])"

text \<open>
  The second argument of \<open>fetch\<close>.  Header names are listed in the order in which the
  object literal and later assignments create them.
\<close>

record 'b fetch_opts =
  fo_method :: string
  fo_headers :: "(string \<times> string) list"
  fo_body :: "'b option"

text \<open>
  The upstream as a function of the \<open>fetch\<close> arguments: either \<open>fetch\<close> or
  \<open>r.text()\<close> throws, or the reply's status and text arrive.
\<close>

type_synonym 'b upstream = "string \<Rightarrow> 'b fetch_opts \<Rightarrow> js_error + (nat \<times> string)"

text \<open>An invocation of \<open>fetch\<close>: the URL and the options.\<close>

type_synonym 'b fetch_call = "string \<times> 'b fetch_opts"

text \<open>
  What a handler does with one request: the invocations of \<open>fetch\<close> it makes, in
  order, and the response it writes.
\<close>

record 'b outcome =
  calls :: "'b fetch_call list"
  reply :: response

text \<open>
  The destructuring \<open>[pathname, qs = ""] = pieces\<close>: the first two elements, the
  second defaulting to \<open>""\<close>.  \<open>split\<close> never yields the empty array; on it the
  template literal would render the missing \<open>pathname\<close> as \<open>undefined\<close>.
\<close>

fun first_two :: "string list \<Rightarrow> string \<times> string" where
  "first_two (p # x # _) = (p, x)"
| "first_two [p] = (p, [])"
| "first_two [] = (''undefined'', [])"

text \<open>
  The lines shared by every signing handler,
  \<open>const path = req.originalUrl.replace(/^\/prefix/, ""); const [pathname, qs = ""] = path.split("?");\<close>
  with the result \<open>(pathname, qs)\<close>.
\<close>

definition path_pieces :: "string \<Rightarrow> request \<Rightarrow> string \<times> string" where
  "path_pieces prefix req = first_two (split CHR ''?'' (replace_prefix prefix (originalUrl req)))"

section \<open>The signing proxy (route \<open>/bybit/*\<close>)\<close>

definition mustAuth :: "process_env \<Rightarrow> request \<Rightarrow> response option" where
  "mustAuth env req =
     (if PROXY_TOKEN env = [] then Some (Json 500 (JObj [(''error'', JStr ''PROXY_TOKEN not set'')]))
      else
        let presented = trim (or_empty (header req ''X-PROXY-TOKEN'')) in
        if presented \<noteq> PROXY_TOKEN env then Some (Json 401 (JObj [(''error'', JStr ''Unauthorized'')]))
        else None)"

text \<open>The local constants \<open>h\<close>, \<open>q\<close> and \<open>env\<close> of \<open>pickEnv\<close>.\<close>

definition env_header :: "request \<Rightarrow> string" where
  "env_header req = toLowerCase (trim (or_empty (header req ''X-BYBIT-ENV'')))"

definition env_query :: "request \<Rightarrow> string" where
  "env_query req =
     toLowerCase (trim (case query_env req of None \<Rightarrow> []
                        | Some v \<Rightarrow> if v = QStr [] then [] else qval_toString v))"

definition env_selected :: "request \<Rightarrow> string" where
  "env_selected req = or_str (env_header req) (or_str (env_query req) ''demo'')"

definition invalid_env_message :: "string \<Rightarrow> string" where
  "invalid_env_message env = ''Invalid env '' @ [CHR 0x22] @ env @ [CHR 0x22] @ ''. Use demo|main.''"

definition pickEnv :: "request \<Rightarrow> js_error + string" where
  "pickEnv req =
     (let env = env_selected req
      in if env \<noteq> ''demo'' \<and> env \<noteq> ''main'' then Inl (new_Error (invalid_env_message env))
         else Inr env)"

record creds =
  baseUrl :: string
  creds_apiKey :: string
  creds_secret :: string

definition credsFor :: "process_env \<Rightarrow> string \<Rightarrow> js_error + creds" where
  "credsFor env e =
     (if e = ''main'' then
        (if MAIN_KEY env = [] \<or> MAIN_SECRET env = [] then Inl (new_Error ''Mainnet keys missing in env'')
         else Inr \<lparr>baseUrl = BYBIT_MAINNET, creds_apiKey = MAIN_KEY env, creds_secret = MAIN_SECRET env\<rparr>)
      else if DEMO_KEY env = [] \<or> DEMO_SECRET env = [] then Inl (new_Error ''Demo keys missing in env'')
      else Inr \<lparr>baseUrl = BYBIT_DEMO, creds_apiKey = DEMO_KEY env, creds_secret = DEMO_SECRET env\<rparr>)"

text \<open>The argument object of \<open>forwardToBybit\<close>.\<close>

record forward_args =
  fa_method :: string
  fa_url :: string
  fa_apiKey :: string
  fa_secret :: string
  fa_payload :: string
  fa_bodyJson :: string

text \<open>The signed headers and the options handed to \<open>fetch\<close>; \<open>now\<close> is \<open>Date.now()\<close>.\<close>

definition signed_opts :: "process_env \<Rightarrow> nat \<Rightarrow> forward_args \<Rightarrow> string fetch_opts" where
  "signed_opts env now a =
     (let ts = decimal now;
          signature = signBybit \<lparr>timestamp = ts, apiKey = fa_apiKey a, secret = fa_secret a,
                                 recvWindow = RECV_WINDOW env, payload = fa_payload a\<rparr>;
          headers = [(''X-BAPI-API-KEY'', fa_apiKey a),
                     (''X-BAPI-TIMESTAMP'', ts),
                     (''X-BAPI-SIGN'', signature),
                     (''X-BAPI-RECV-WINDOW'', RECV_WINDOW env),
                     (''Content-Type'', ''application/json'')]
      in \<lparr>fo_method = fa_method a, fo_headers = headers,
           fo_body = (if fa_method a \<noteq> ''GET'' then Some (fa_bodyJson a) else None)\<rparr>)"

definition forwardToBybit ::
  "process_env \<Rightarrow> string upstream \<Rightarrow> nat \<Rightarrow> forward_args
     \<Rightarrow> string fetch_call list \<times> (js_error + (nat \<times> string))" where
  "forwardToBybit env fetch now a =
     (let opts = signed_opts env now a
      in ([(fa_url a, opts)], fetch (fa_url a) opts))"

text \<open>
  The payload rules shared by every signing handler:
  \<open>if (method === "GET") payload = qs || ""; else { bodyJson = JSON.stringify(req.body ?? {}); payload = bodyJson; }\<close>
  The result is the pair \<open>(payload, bodyJson)\<close>.
\<close>

definition payload_rules :: "string \<Rightarrow> string \<Rightarrow> json option \<Rightarrow> string \<times> string" where
  "payload_rules method qs body =
     (if method = ''GET'' then (or_str qs [], [])
      else let bodyJson = JSON_stringify (nullish_empty_object body) in (bodyJson, bodyJson))"

text \<open>
  The \<open>try\<close> block of the handler up to the call of \<open>forwardToBybit\<close>: environment,
  credentials, URL and payload.
\<close>

definition bybit_prepare :: "process_env \<Rightarrow> request \<Rightarrow> js_error + forward_args" where
  "bybit_prepare env req =
     (case pickEnv req of Inl e \<Rightarrow> Inl e | Inr e \<Rightarrow>
      (case credsFor env e of Inl err \<Rightarrow> Inl err | Inr c \<Rightarrow>
        let (pathname, qs) = path_pieces ''/bybit'' req;
            url = baseUrl c @ pathname @ (if qs \<noteq> [] then ''?'' @ qs else []);
            method = toUpperCase (req_method req);
            (payload, bodyJson) = payload_rules method qs (req_body req)
        in Inr \<lparr>fa_method = method, fa_url = url, fa_apiKey = creds_apiKey c, fa_secret = creds_secret c,
                 fa_payload = payload, fa_bodyJson = bodyJson\<rparr>))"

text \<open>\<open>out.text.trim().startsWith("{") ? "application/json" : "text/html"\<close>\<close>

definition infer_content_type :: "string \<Rightarrow> string" where
  "infer_content_type text = (if startsWith (trim text) ''{'' then ''application/json'' else ''text/html'')"

text \<open>The handler of \<open>app.all("/bybit/*")\<close>.\<close>

definition bybit_handler ::
  "process_env \<Rightarrow> string upstream \<Rightarrow> nat \<Rightarrow> request \<Rightarrow> string outcome" where
  "bybit_handler env fetch now req =
     (case mustAuth env req of Some r \<Rightarrow> \<lparr>calls = [], reply = r\<rparr> | None \<Rightarrow>
      (case bybit_prepare env req of Inl e \<Rightarrow> \<lparr>calls = [], reply = catch_response e\<rparr> | Inr a \<Rightarrow>
        (case forwardToBybit env fetch now a of
           (cs, Inl e) \<Rightarrow> \<lparr>calls = cs, reply = catch_response e\<rparr>
         | (cs, Inr (status, text)) \<Rightarrow> \<lparr>calls = cs, reply = Sent status (infer_content_type text) text\<rparr>)))"

section \<open>The signing proxy without token and with optional keys (routes \<open>/mainnet/*\<close>, \<open>/testnet/*\<close>)\<close>

text \<open>
  The revision whose \<open>mustAuth\<close> always allows and whose \<open>credsFor\<close> returns \<open>null\<close>
  for a missing key or secret; \<open>None\<close> is \<open>null\<close>.
\<close>

definition BYBIT_TESTNET :: string where
  "BYBIT_TESTNET = ''https://api-demo.bybit.com''"

definition mustAuth_open :: "request \<Rightarrow> response option" where
  "mustAuth_open req = None"

text \<open>\<open>s || null\<close>\<close>

definition or_null :: "string \<Rightarrow> string option" where
  "or_null s = (if s = [] then None else Some s)"

record creds_optional =
  co_baseUrl :: string
  co_apiKey :: "string option"
  co_secret :: "string option"

definition credsFor_optional :: "process_env \<Rightarrow> string \<Rightarrow> creds_optional" where
  "credsFor_optional env e =
     (if e = ''mainnet''
      then \<lparr>co_baseUrl = BYBIT_MAINNET, co_apiKey = or_null (MAIN_KEY env), co_secret = or_null (MAIN_SECRET env)\<rparr>
      else \<lparr>co_baseUrl = BYBIT_TESTNET, co_apiKey = or_null (DEMO_KEY env), co_secret = or_null (DEMO_SECRET env)\<rparr>)"

record forward_args_optional =
  fao_method :: string
  fao_url :: string
  fao_apiKey :: "string option"
  fao_secret :: "string option"
  fao_payload :: string
  fao_bodyJson :: string

text \<open>\<open>apiKey && secret\<close> as a condition: both present and non-empty.\<close>

definition both_truthy :: "string option \<Rightarrow> string option \<Rightarrow> (string \<times> string) option" where
  "both_truthy k s =
     (case (k, s) of (Some k', Some s') \<Rightarrow> if k' \<noteq> [] \<and> s' \<noteq> [] then Some (k', s') else None
      | _ \<Rightarrow> None)"

definition optional_opts :: "process_env \<Rightarrow> nat \<Rightarrow> forward_args_optional \<Rightarrow> string fetch_opts" where
  "optional_opts env now a =
     (let headers =
            [(''Content-Type'', ''application/json'')] @
            (case both_truthy (fao_apiKey a) (fao_secret a) of None \<Rightarrow> []
             | Some (k, s) \<Rightarrow>
                 let ts = decimal now;
                     signature = signBybit \<lparr>timestamp = ts, apiKey = k, secret = s,
                                            recvWindow = RECV_WINDOW env, payload = fao_payload a\<rparr>
                 in [(''X-BAPI-API-KEY'', k), (''X-BAPI-TIMESTAMP'', ts),
                     (''X-BAPI-SIGN'', signature), (''X-BAPI-RECV-WINDOW'', RECV_WINDOW env)])
      in \<lparr>fo_method = fao_method a, fo_headers = headers,
           fo_body = (if fao_method a \<noteq> ''GET'' then Some (fao_bodyJson a) else None)\<rparr>)"

definition forwardToBybit_optional ::
  "process_env \<Rightarrow> string upstream \<Rightarrow> nat \<Rightarrow> forward_args_optional
     \<Rightarrow> string fetch_call list \<times> (js_error + (nat \<times> string))" where
  "forwardToBybit_optional env fetch now a =
     (let opts = optional_opts env now a
      in ([(fao_url a, opts)], fetch (fao_url a) opts))"

text \<open>
  The two handlers differ in the environment name and the routing prefix only:
  \<open>route_handler env fetch now ''mainnet''\<close> is the handler of \<open>/mainnet/*\<close>,
  \<open>route_handler env fetch now ''testnet''\<close> that of \<open>/testnet/*\<close>.
\<close>

definition route_prepare :: "process_env \<Rightarrow> string \<Rightarrow> request \<Rightarrow> forward_args_optional" where
  "route_prepare env name req =
     (let c = credsFor_optional env name;
          (pathname, qs) = path_pieces (''/'' @ name) req;
          url = co_baseUrl c @ pathname @ (if qs \<noteq> [] then ''?'' @ qs else []);
          method = toUpperCase (req_method req);
          (payload, bodyJson) = payload_rules method qs (req_body req)
      in \<lparr>fao_method = method, fao_url = url, fao_apiKey = co_apiKey c, fao_secret = co_secret c,
           fao_payload = payload, fao_bodyJson = bodyJson\<rparr>)"

definition route_handler ::
  "process_env \<Rightarrow> string upstream \<Rightarrow> nat \<Rightarrow> string \<Rightarrow> request \<Rightarrow> string outcome" where
  "route_handler env fetch now name req =
     (case mustAuth_open req of Some r \<Rightarrow> \<lparr>calls = [], reply = r\<rparr> | None \<Rightarrow>
        (case forwardToBybit_optional env fetch now (route_prepare env name req) of
           (cs, Inl e) \<Rightarrow> \<lparr>calls = cs, reply = catch_response e\<rparr>
         | (cs, Inr (status, text)) \<Rightarrow> \<lparr>calls = cs, reply = Sent status (infer_content_type text) text\<rparr>))"

section \<open>The pass-through proxy (\<open>proxyToBybit\<close>)\<close>

definition headersToCopy :: "string list" where
  "headersToCopy =
     [''x-bapi-api-key'', ''x-bapi-timestamp'', ''x-bapi-sign'', ''x-bapi-recv-window'',
      ''content-type'', ''accept'', ''accept-language'', ''cache-control'']"

text \<open>\<open>a || b\<close> where both are a string or \<open>undefined\<close>.\<close>

definition or_opt :: "string option \<Rightarrow> string option \<Rightarrow> string option" where
  "or_opt a b = (case a of None \<Rightarrow> b | Some s \<Rightarrow> if s = [] then b else a)"

text \<open>\<open>obj[k] = v\<close>: an existing property keeps its place, a new one goes last.\<close>

fun obj_set :: "(string \<times> string) list \<Rightarrow> string \<Rightarrow> string \<Rightarrow> (string \<times> string) list" where
  "obj_set [] k v = [(k, v)]"
| "obj_set ((k', v') # r) k v = (if k' = k then (k, v) # r else (k', v') # obj_set r k v)"

definition bybit_header_name :: "string \<Rightarrow> string" where
  "bybit_header_name h =
     (if h = ''x-bapi-api-key'' then ''X-BAPI-API-KEY''
      else if h = ''x-bapi-timestamp'' then ''X-BAPI-TIMESTAMP''
      else if h = ''x-bapi-sign'' then ''X-BAPI-SIGN''
      else if h = ''x-bapi-recv-window'' then ''X-BAPI-RECV-WINDOW''
      else h)"

text \<open>One turn of the loop over \<open>headersToCopy\<close>.\<close>

definition copy_header :: "request \<Rightarrow> (string \<times> string) list \<Rightarrow> string \<Rightarrow> (string \<times> string) list" where
  "copy_header req headers h =
     (case or_opt (req_headers req h) (or_opt (req_headers req (toUpperCase h)) (header req h)) of
        None \<Rightarrow> headers
      | Some v \<Rightarrow> if v = [] then headers else obj_set headers (bybit_header_name h) v)"

definition User_Agent :: string where
  "User_Agent = ''Mozilla/5.0 (Windows NT 10.0; Win64; x64) AppleWebKit/537.36 (KHTML, like Gecko) Chrome/120.0.0.0 Safari/537.36''"

text \<open>\<open>typeof v === 'object'\<close> and the truthiness of a value.\<close>

fun typeof_object :: "json \<Rightarrow> bool" where
  "typeof_object JNull = True"
| "typeof_object (JArr _) = True"
| "typeof_object (JObj _) = True"
| "typeof_object _ = False"

fun truthy :: "json \<Rightarrow> bool" where
  "truthy JNull = False"
| "truthy (JBool b) = b"
| "truthy (JNum n) = (n \<noteq> ''0'')"
| "truthy (JStr s) = (s \<noteq> [])"
| "truthy (JArr _) = True"
| "truthy (JObj _) = True"

text \<open>
  The value assigned to \<open>opts.body\<close>, if any: the serialisation (a string) of an
  object, else the body itself when it is truthy.
\<close>

definition proxy_body :: "string \<Rightarrow> json option \<Rightarrow> json option" where
  "proxy_body method body =
     (if method \<noteq> ''GET'' \<and> method \<noteq> ''HEAD'' then
        (case body of None \<Rightarrow> None
         | Some v \<Rightarrow> if typeof_object v then Some (JStr (JSON_stringify v))
                     else if truthy v then Some v else None)
      else None)"

definition proxy_opts :: "request \<Rightarrow> json fetch_opts" where
  "proxy_opts req =
     (let method = toUpperCase (req_method req);
          headers = foldl (copy_header req) [] headersToCopy;
          headers = (if or_empty (map_of headers ''content-type'') = [] \<and> method \<noteq> ''GET''
                     then obj_set headers ''Content-Type'' ''application/json'' else headers);
          headers = obj_set headers ''User-Agent'' User_Agent
      in \<lparr>fo_method = method, fo_headers = headers, fo_body = proxy_body method (req_body req)\<rparr>)"

definition proxyToBybit :: "json upstream \<Rightarrow> request \<Rightarrow> string \<Rightarrow> string \<Rightarrow> json outcome" where
  "proxyToBybit fetch req base prefix =
     (let path = replace_prefix (''/'' @ prefix) (originalUrl req);
          url = base @ path;
          opts = proxy_opts req
      in case fetch url opts of
           Inl e \<Rightarrow> \<lparr>calls = [(url, opts)], reply = catch_response e\<rparr>
         | Inr (status, text) \<Rightarrow> \<lparr>calls = [(url, opts)], reply = Sent status (infer_content_type text) text\<rparr>)"

text \<open>
  The two routes of the pass-through file.  Its constant \<open>BYBIT_TESTNET\<close> is the host
  that the signing proxy calls \<open>BYBIT_DEMO\<close>.
\<close>

definition mainnet_proxy :: "json upstream \<Rightarrow> request \<Rightarrow> json outcome" where
  "mainnet_proxy fetch req = proxyToBybit fetch req BYBIT_MAINNET ''mainnet''"

definition testnet_proxy :: "json upstream \<Rightarrow> request \<Rightarrow> json outcome" where
  "testnet_proxy fetch req = proxyToBybit fetch req BYBIT_DEMO ''testnet''"

section \<open>Reference notions used to state the properties\<close>

text \<open>
  The components of a request target (RFC 3986): the path is everything before the
  first \<open>?\<close>, the query everything after it; the query is \<open>None\<close> when the target
  has no \<open>?\<close>.
\<close>

definition before_question_mark :: "string \<Rightarrow> string" where
  "before_question_mark s = takeWhile (\<lambda>c. c \<noteq> CHR ''?'') s"

definition url_path :: "string \<Rightarrow> string" where
  "url_path u = before_question_mark u"

definition url_query :: "string \<Rightarrow> string option" where
  "url_query u =
     (if CHR ''?'' \<in> set u then Some (tl (dropWhile (\<lambda>c. c \<noteq> CHR ''?'') u)) else None)"

definition lower_hex_char :: "char \<Rightarrow> bool" where
  "lower_hex_char c = (c \<in> set ''0123456789abcdef'')"

definition is_lower_hex :: "string \<Rightarrow> bool" where
  "is_lower_hex s = list_all lower_hex_char s"

section \<open>Example configuration and requests\<close>

definition env_example :: process_env where
  "env_example =
     map_of [(''PROXY_TOKEN'', ''s3cret''),
             (''BYBIT_MAINNET_API_KEY'', ''mainKey''), (''BYBIT_MAINNET_SECRET'', ''mainSecret''),
             (''BYBIT_DEMO_API_KEY'', ''demoKey''), (''BYBIT_DEMO_SECRET'', ''demoSecret'')]"

definition env_no_token :: process_env where
  "env_no_token =
     map_of [(''BYBIT_DEMO_API_KEY'', ''demoKey''), (''BYBIT_DEMO_SECRET'', ''demoSecret'')]"

definition upstream_ok :: "'b upstream" where
  "upstream_ok url opts = Inr (200, ''{}'')"

text \<open>\<open>GET /bybit/v5/market/time\<close> with the right token.\<close>

definition req_get_time :: request where
  "req_get_time =
     \<lparr>req_method = ''GET'', originalUrl = ''/bybit/v5/market/time'',
      req_headers = map_of [(''x-proxy-token'', ''s3cret'')],
      query_env = None, req_body = None\<rparr>"

text \<open>\<open>POST /bybit/v5/order/create\<close> for the main environment, with a JSON body.\<close>

definition req_post_order :: request where
  "req_post_order =
     \<lparr>req_method = ''POST'', originalUrl = ''/bybit/v5/order/create'',
      req_headers = map_of [(''x-proxy-token'', ''s3cret''), (''x-bybit-env'', ''main'')],
      query_env = None, req_body = Some (JObj [(''symbol'', JStr ''BTCUSDT'')])\<rparr>"

definition args_post_order :: forward_args where
  \<open>args_post_order =
     \<lparr>fa_method = ''POST'', fa_url = ''https://api.bybit.com/v5/order/create'',
      fa_apiKey = ''mainKey'', fa_secret = ''mainSecret'',
      fa_payload = ''{"symbol":"BTCUSDT"}'', fa_bodyJson = ''{"symbol":"BTCUSDT"}''\<rparr>\<close>

text \<open>
  \<open>GET /bybit/v5/market/tickers?category=linear&note=a?b\<close>: a query string that
  contains a question mark.
\<close>

definition req_get_note :: request where
  "req_get_note =
     \<lparr>req_method = ''GET'', originalUrl = ''/bybit/v5/market/tickers?category=linear&note=a?b'',
      req_headers = map_of [(''x-proxy-token'', ''s3cret'')],
      query_env = None, req_body = None\<rparr>"

definition args_get_note :: forward_args where
  "args_get_note =
     \<lparr>fa_method = ''GET'',
      fa_url = ''https://api-demo-testnet.bybit.com/v5/market/tickers?category=linear&note=a'',
      fa_apiKey = ''demoKey'', fa_secret = ''demoSecret'',
      fa_payload = ''category=linear&note=a'', fa_bodyJson = []\<rparr>"

definition args_get_time :: forward_args where
  "args_get_time =
     \<lparr>fa_method = ''GET'', fa_url = ''https://api-demo-testnet.bybit.com/v5/market/time'',
      fa_apiKey = ''demoKey'', fa_secret = ''demoSecret'', fa_payload = [], fa_bodyJson = []\<rparr>"

text \<open>The same request with a wrong token, and with the right token followed by a space or by a no-break space.\<close>

definition req_wrong_token :: request where
  "req_wrong_token = req_get_time\<lparr>req_headers := map_of [(''x-proxy-token'', ''guess'')]\<rparr>"

definition req_padded_token :: request where
  "req_padded_token = req_get_time\<lparr>req_headers := map_of [(''x-proxy-token'', ''s3cret '')]\<rparr>"

definition req_nbsp_token :: request where
  "req_nbsp_token = req_get_time\<lparr>req_headers := map_of [(''x-proxy-token'', ''s3cret'' @ [CHR 0xA0])]\<rparr>"





text \<open>Requests to the pass-through proxy: a POST with an empty \<open>text/plain\<close> body, a HEAD, a POST with a JSON body.\<close>

definition req_post_empty_text :: request where
  "req_post_empty_text =
     \<lparr>req_method = ''POST'', originalUrl = ''/mainnet/v5/order/create'',
      req_headers = map_of [(''content-type'', ''text/plain''), (''content-length'', ''0'')],
      query_env = None, req_body = Some (JStr [])\<rparr>"

definition req_head_time :: request where
  "req_head_time =
     \<lparr>req_method = ''HEAD'', originalUrl = ''/mainnet/v5/market/time'',
      req_headers = map_of [], query_env = None, req_body = Some (JObj [])\<rparr>"

definition req_proxy_post :: request where
  "req_proxy_post =
     \<lparr>req_method = ''POST'', originalUrl = ''/mainnet/v5/order/create'',
      req_headers = map_of [(''content-type'', ''application/json'')],
      query_env = None, req_body = Some (JObj [(''symbol'', JStr ''BTCUSDT'')])\<rparr>"

text \<open>POST requests without a body: \<open>req.body\<close> is \<open>undefined\<close>, or \<open>null\<close>.\<close>

definition req_post_nobody :: request where
  "req_post_nobody =
     \<lparr>req_method = ''POST'', originalUrl = ''/bybit/v5/order/cancel-all'',
      req_headers = map_of [(''x-proxy-token'', ''s3cret'')],
      query_env = None, req_body = None\<rparr>"

definition args_post_nobody :: forward_args where
  "args_post_nobody =
     \<lparr>fa_method = ''POST'', fa_url = ''https://api-demo-testnet.bybit.com/v5/order/cancel-all'',
      fa_apiKey = ''demoKey'', fa_secret = ''demoSecret'', fa_payload = ''{}'', fa_bodyJson = ''{}''\<rparr>"

definition req_post_null :: request where
  "req_post_null =
     \<lparr>req_method = ''POST'', originalUrl = ''/testnet/v5/order/cancel-all'',
      req_headers = map_of [], query_env = None, req_body = Some JNull\<rparr>"

definition req_post_null_mainnet :: request where
  "req_post_null_mainnet = req_post_null\<lparr>originalUrl := ''/mainnet/v5/order/cancel-all''\<rparr>"

section \<open>Evaluation on concrete inputs\<close>

lemmas string_ops =
  or_str_def or_empty_def trim_def is_js_space_def toLowerCase_def lower_char_def
  toUpperCase_def upper_char_def code_unit_def char_of_def bit_Suc_0_iff
  startsWith_def replace_prefix_def

lemmas config_ops =
  env_trim_def PROXY_TOKEN_def MAIN_KEY_def MAIN_SECRET_def DEMO_KEY_def DEMO_SECRET_def
  BYBIT_MAINNET_def BYBIT_DEMO_def

lemmas handler_ops =
  header_def mustAuth_def env_header_def env_query_def env_selected_def pickEnv_def credsFor_def
  payload_rules_def path_pieces_def bybit_prepare_def nullish_empty_object_def

lemmas json_ops = QuoteJSONString_def quote_char_def code_unit_def

text \<open>The model on known values.\<close>

lemma sha256_abc:
  "hex (sha256 (utf8 ''abc'')) = ''ba7816bf8f01cfea414140de5dae2223b00361a396177a9cb410ff61f20015ad''"
  by code_simp

lemma sha256_padding_lengths:
  "length (pad (replicate 55 0)) = 64" "length (pad (replicate 56 0)) = 128"
  by (simp_all add: pad_def length_bytes_def)

lemma utf8_two_bytes: "utf8 [CHR ''a'', CHR 0xE9] = [0x61, 0xC3, 0xA9]"
  by (simp add: utf8_def utf8_char_def code_unit_def)

lemma decimal_timestamp: "decimal 1700000000000 = ''1700000000000''"
  by (simp add: decimal.simps digit_char_def char_of_def bit_Suc_0_iff)

lemma trim_lower_example: "toLowerCase (trim ('' Main'' @ [CHR 0x09, CHR 0xA0])) = ''main''"
  by (simp add: string_ops)

lemma split_example: "split CHR ''?'' ''/v5/x?a=1?b=2'' = [''/v5/x'', ''a=1'', ''b=2'']"
  by simp

lemma split_no_separator: "split CHR ''?'' ''/v5/x'' = [''/v5/x'']" "split CHR ''?'' [] = [[]]"
  by simp_all

lemma JSON_stringify_example:
  \<open>JSON_stringify (JObj [(''symbol'', JStr ''BTCUSDT''), (''qty'', JNum ''0.01''),
                          (''tags'', JArr [JBool True, JNull, JStr [CHR 0x22, CHR 0x0A]])])
     = ''{"symbol":"BTCUSDT","qty":0.01,"tags":[true,null,"'' @ [CHR 0x5C, CHR 0x22, CHR 0x5C] @ ''n"]}''\<close>
  by (simp add: json_ops)

lemma infer_content_type_examples:
  \<open>infer_content_type ''{"result":1}'' = ''application/json''\<close>
  \<open>infer_content_type ''<html></html>'' = ''text/html''\<close>
  \<open>infer_content_type [] = ''text/html''\<close>
  by (simp_all add: infer_content_type_def string_ops)

section \<open>Properties of the signer\<close>

lemma length_sha_round: "length s = 8 \<Longrightarrow> length (sha_round s kw) = 8"
proof -
  assume "length s = 8"
  then obtain a b c d e f g h where "s = [a, b, c, d, e, f, g, h]"
    by (auto simp: length_Suc_conv numeral_eq_Suc)
  then show ?thesis by (cases kw) (simp add: Let_def)
qed

lemma length_foldl_sha_round: "length s = 8 \<Longrightarrow> length (foldl sha_round s kws) = 8"
  by (induction kws arbitrary: s) (simp_all add: length_sha_round)

lemma length_compress: "length hs = 8 \<Longrightarrow> length (compress hs b) = 8"
  by (simp add: compress_def length_foldl_sha_round)

lemma length_foldl_compress: "length hs = 8 \<Longrightarrow> length (foldl compress hs bs) = 8"
  by (induction bs arbitrary: hs) (simp_all add: length_compress)

lemma length_concat_be_bytes: "length (concat (map be_bytes ws)) = 4 * length ws"
  by (induction ws) (simp_all add: be_bytes_def)

lemma length_sha256: "length (sha256 m) = 32"
  by (simp add: sha256_def length_concat_be_bytes length_foldl_compress H256_def)

lemma length_hex: "length (hex bs) = 2 * length bs"
  by (induction bs) (simp_all add: hex_def hex_byte_def)

lemma hex_digit_lower: "d < 16 \<Longrightarrow> lower_hex_char (hex_digit d)"
  unfolding hex_digit_def lower_hex_char_def by (rule nth_mem) simp

lemma unat_byte_div: "unat (b :: byte) div 16 < 16"
proof -
  have "unat b < 256" using unsigned_less [of b] by simp
  then show ?thesis by simp
qed

lemma is_lower_hex_hex: "is_lower_hex (hex bs)"
  by (induction bs) (simp_all add: is_lower_hex_def hex_def hex_byte_def hex_digit_lower unat_byte_div)

lemma signBybit_unfold:
  "signBybit i =
     hex (hmac_sha256 (utf8 (secret i)) (utf8 (timestamp i @ apiKey i @ recvWindow i @ payload i)))"
  by (simp add: signBybit_def digest_hex_def update_def createHmac_sha256_def signStr_def)

text \<open>
  Claim C1.  For every signing input, \<open>signBybit\<close> returns the hex encoding of
  HMAC-SHA256, keyed by the secret, of the timestamp, the API key, the receive window
  and the payload concatenated in this order with nothing between them; the encoding
  has 64 characters, all of them digits or lower-case letters \<open>a\<close> .. \<open>f\<close>.
\<close>

theorem signBybit_is_hex_hmac_sha256:
  "signBybit i =
     hex (hmac_sha256 (utf8 (secret i)) (utf8 (timestamp i @ apiKey i @ recvWindow i @ payload i)))
   \<and> length (signBybit i) = 64
   \<and> is_lower_hex (signBybit i)"
  by (simp add: signBybit_unfold length_hex hmac_sha256_def Let_def length_sha256 is_lower_hex_hex)


section \<open>Properties of the signing proxy\<close>

lemma split_not_Nil: "split c s \<noteq> []"
  by (induction s) (simp_all split: list.split)

lemma calls_bybit_handler:
  "calls (bybit_handler env fetch now req) =
     (case mustAuth env req of Some r \<Rightarrow> []
      | None \<Rightarrow> (case bybit_prepare env req of Inl e \<Rightarrow> []
                  | Inr a \<Rightarrow> [(fa_url a, signed_opts env now a)]))"
  by (simp add: bybit_handler_def forwardToBybit_def Let_def split: option.split sum.split prod.split)

lemma in_calls_bybit_handler:
  assumes "(url, opts) \<in> set (calls (bybit_handler env fetch now req))"
  shows "\<exists>a. mustAuth env req = None \<and> bybit_prepare env req = Inr a
           \<and> url = fa_url a \<and> opts = signed_opts env now a"
  using assms
  by (cases "mustAuth env req"; cases "bybit_prepare env req") (simp_all add: calls_bybit_handler)

lemma bybit_prepare_Inr:
  assumes "bybit_prepare env req = Inr a"
  shows "\<exists>e c. pickEnv req = Inr e \<and> credsFor env e = Inr c
           \<and> fa_method a = toUpperCase (req_method req)
           \<and> fa_apiKey a = creds_apiKey c \<and> fa_secret a = creds_secret c
           \<and> fa_url a = baseUrl c @ fst (path_pieces ''/bybit'' req)
                @ (if snd (path_pieces ''/bybit'' req) \<noteq> []
                   then ''?'' @ snd (path_pieces ''/bybit'' req) else [])
           \<and> (fa_payload a, fa_bodyJson a) =
               payload_rules (toUpperCase (req_method req)) (snd (path_pieces ''/bybit'' req)) (req_body req)"
  using assms
  by (auto simp: bybit_prepare_def Let_def split: sum.splits prod.splits)

lemma sign_header_signed_opts:
  "map_of (fo_headers (signed_opts env now a)) ''X-BAPI-SIGN'' =
     Some (signBybit \<lparr>timestamp = decimal now, apiKey = fa_apiKey a, secret = fa_secret a,
                      recvWindow = RECV_WINDOW env, payload = fa_payload a\<rparr>)"
  by (simp add: signed_opts_def Let_def)

lemma body_signed_opts:
  "fo_body (signed_opts env now a) = (if fa_method a \<noteq> ''GET'' then Some (fa_bodyJson a) else None)"
  by (simp add: signed_opts_def Let_def)

lemma mustAuth_post_order: "mustAuth env_example req_post_order = None"
  by (simp add: req_post_order_def env_example_def string_ops config_ops handler_ops)

lemma prepare_post_order: "bybit_prepare env_example req_post_order = Inr args_post_order"
  by (simp add: req_post_order_def args_post_order_def env_example_def string_ops config_ops
      handler_ops json_ops Let_def)

text \<open>
  Claim C2.  For every request whose method is not GET, every invocation of \<open>fetch\<close>
  made by the handler passes as body the very string that is the payload of the signed
  canonical string: both are the one serialisation \<open>JSON.stringify(req.body ?? {})\<close>,
  and the \<open>X-BAPI-SIGN\<close> header is the signature over the timestamp, the key and the
  receive window followed by that string.
\<close>

theorem non_GET_body_is_signed_payload:
  assumes "toUpperCase (req_method req) \<noteq> ''GET''"
    and "(url, opts) \<in> set (calls (bybit_handler env fetch now req))"
  shows "\<exists>e c. pickEnv req = Inr e \<and> credsFor env e = Inr c
           \<and> fo_body opts = Some (JSON_stringify (nullish_empty_object (req_body req)))
           \<and> map_of (fo_headers opts) ''X-BAPI-SIGN'' =
               Some (signBybit \<lparr>timestamp = decimal now, apiKey = creds_apiKey c, secret = creds_secret c,
                                recvWindow = RECV_WINDOW env,
                                payload = JSON_stringify (nullish_empty_object (req_body req))\<rparr>)"
proof -
  from in_calls_bybit_handler [OF assms(2)]
  obtain a where a: "bybit_prepare env req = Inr a" and opts: "opts = signed_opts env now a"
    by blast
  from bybit_prepare_Inr [OF a] obtain e c
    where c: "pickEnv req = Inr e" "credsFor env e = Inr c"
      and m: "fa_method a = toUpperCase (req_method req)"
      and k: "fa_apiKey a = creds_apiKey c" "fa_secret a = creds_secret c"
      and p: "(fa_payload a, fa_bodyJson a) =
                payload_rules (toUpperCase (req_method req)) (snd (path_pieces ''/bybit'' req)) (req_body req)"
    by blast
  from p assms(1) have "fa_payload a = JSON_stringify (nullish_empty_object (req_body req))"
    and "fa_bodyJson a = JSON_stringify (nullish_empty_object (req_body req))"
    by (simp_all add: payload_rules_def Let_def)
  with opts m k c assms(1) show ?thesis
    by (intro exI [of _ e] exI [of _ c]) (simp add: sign_header_signed_opts body_signed_opts)
qed

theorem non_GET_body_is_signed_payload_witness:
  \<open>toUpperCase (req_method req_post_order) \<noteq> ''GET''
   \<and> calls (bybit_handler env_example upstream_ok 1700000000000 req_post_order) =
       [(''https://api.bybit.com/v5/order/create'', signed_opts env_example 1700000000000 args_post_order)]
   \<and> (\<exists>e c. pickEnv req_post_order = Inr e \<and> credsFor env_example e = Inr c
         \<and> fo_body (signed_opts env_example 1700000000000 args_post_order) = Some ''{"symbol":"BTCUSDT"}''
         \<and> map_of (fo_headers (signed_opts env_example 1700000000000 args_post_order)) ''X-BAPI-SIGN'' =
             Some (signBybit \<lparr>timestamp = decimal 1700000000000, apiKey = creds_apiKey c,
                              secret = creds_secret c, recvWindow = RECV_WINDOW env_example,
                              payload = ''{"symbol":"BTCUSDT"}''\<rparr>))\<close>
proof -
  have m: "toUpperCase (req_method req_post_order) \<noteq> ''GET''"
    by (simp add: req_post_order_def string_ops)
  have c: "calls (bybit_handler env_example upstream_ok 1700000000000 req_post_order) =
       [(''https://api.bybit.com/v5/order/create'', signed_opts env_example 1700000000000 args_post_order)]"
    by (simp add: calls_bybit_handler mustAuth_post_order prepare_post_order) (simp add: args_post_order_def)
  have b: \<open>JSON_stringify (nullish_empty_object (req_body req_post_order)) = ''{"symbol":"BTCUSDT"}''\<close>
    by (simp add: req_post_order_def nullish_empty_object_def json_ops)
  from non_GET_body_is_signed_payload [OF m, of _ _ env_example upstream_ok 1700000000000] c b m
  show ?thesis by simp
qed

subsection \<open>Path and query\<close>

lemma split_eq:
  "split c s = takeWhile (\<lambda>x. x \<noteq> c) s #
     (if c \<in> set s then split c (tl (dropWhile (\<lambda>x. x \<noteq> c) s)) else [])"
  by (induction s) (auto split: list.splits)

text \<open>
  What the destructuring keeps of the split target: the path, and of the query only
  the part before its first question mark.
\<close>

lemma first_two_split:
  "first_two (split CHR ''?'' u) =
     (url_path u, case url_query u of None \<Rightarrow> [] | Some q \<Rightarrow> before_question_mark q)"
proof (cases "CHR ''?'' \<in> set u")
  case True
  have "split CHR ''?'' u = url_path u # split CHR ''?'' (tl (dropWhile (\<lambda>x. x \<noteq> CHR ''?'') u))"
    using True by (subst split_eq) (simp add: url_path_def before_question_mark_def)
  moreover obtain p ps where "split CHR ''?'' (tl (dropWhile (\<lambda>x. x \<noteq> CHR ''?'') u)) = p # ps"
    and "p = before_question_mark (tl (dropWhile (\<lambda>x. x \<noteq> CHR ''?'') u))"
    by (subst (asm) split_eq) (simp add: before_question_mark_def)
  ultimately show ?thesis using True by (simp add: url_query_def)
next
  case False
  then have "split CHR ''?'' u = [url_path u]"
    by (subst split_eq) (simp add: url_path_def before_question_mark_def)
  with False show ?thesis by (simp add: url_query_def)
qed

lemma before_question_mark_id: "CHR ''?'' \<notin> set q \<Longrightarrow> before_question_mark q = q"
  by (auto simp: before_question_mark_def)

lemma path_query_join:
  assumes "url_query u = Some q"
  shows "url_path u @ ''?'' @ q = u"
proof -
  from assms have in_u: "CHR ''?'' \<in> set u" and q: "q = tl (dropWhile (\<lambda>c. c \<noteq> CHR ''?'') u)"
    by (auto simp: url_query_def split: if_splits)
  from in_u have ne: "dropWhile (\<lambda>c. c \<noteq> CHR ''?'') u \<noteq> []"
    by simp
  then have "hd (dropWhile (\<lambda>c. c \<noteq> CHR ''?'') u) = CHR ''?''"
    using hd_dropWhile [of "\<lambda>c. c \<noteq> CHR ''?''" u] by simp
  with ne have "dropWhile (\<lambda>c. c \<noteq> CHR ''?'') u = CHR ''?'' # q"
    unfolding q by (cases "dropWhile (\<lambda>c. c \<noteq> CHR ''?'') u") simp_all
  then have "takeWhile (\<lambda>c. c \<noteq> CHR ''?'') u @ CHR ''?'' # q = u"
    using takeWhile_dropWhile_id [of "\<lambda>c. c \<noteq> CHR ''?''" u] by simp
  then show ?thesis by (simp add: url_path_def before_question_mark_def)
qed

lemma path_without_query: "url_query u = None \<Longrightarrow> url_path u = u"
  by (auto simp: url_query_def url_path_def before_question_mark_def split: if_splits)

text \<open>
  Where the GET payload is the query string: whenever the query string holds no
  further question mark.  In general it is the query string cut at its first
  question mark.
\<close>

lemma GET_payload_is_query_cut_at_question_mark:
  assumes "bybit_prepare env req = Inr a" and "toUpperCase (req_method req) = ''GET''"
  shows "fa_payload a =
           (case url_query (replace_prefix ''/bybit'' (originalUrl req)) of
              None \<Rightarrow> [] | Some q \<Rightarrow> before_question_mark q)"
proof -
  from bybit_prepare_Inr [OF assms(1)]
  have "(fa_payload a, fa_bodyJson a) =
          payload_rules ''GET'' (snd (path_pieces ''/bybit'' req)) (req_body req)"
    using assms(2) by auto
  then have "fa_payload a = snd (path_pieces ''/bybit'' req)"
    by (simp add: payload_rules_def or_str_def)
  then show ?thesis
    by (simp add: path_pieces_def first_two_split)
qed

lemma GET_payload_is_query_without_question_mark:
  assumes "bybit_prepare env req = Inr a" and "toUpperCase (req_method req) = ''GET''"
    and "url_query (replace_prefix ''/bybit'' (originalUrl req)) = Some q" and "CHR ''?'' \<notin> set q"
  shows "fa_payload a = q"
  using GET_payload_is_query_cut_at_question_mark [OF assms(1,2)] assms(3,4)
  by (simp add: before_question_mark_id)

text \<open>
  Where the outbound URL is the base URL followed by the target without the routing
  prefix: whenever there is no query string, or a non-empty one without a further
  question mark.
\<close>

lemma url_is_base_and_target:
  assumes "bybit_prepare env req = Inr a"
    and "case url_query (replace_prefix ''/bybit'' (originalUrl req)) of
           None \<Rightarrow> True | Some q \<Rightarrow> q \<noteq> [] \<and> CHR ''?'' \<notin> set q"
  shows "\<exists>e c. pickEnv req = Inr e \<and> credsFor env e = Inr c
           \<and> fa_url a = baseUrl c @ replace_prefix ''/bybit'' (originalUrl req)"
proof -
  from bybit_prepare_Inr [OF assms(1)] obtain e c
    where c: "pickEnv req = Inr e" "credsFor env e = Inr c"
      and u: "fa_url a = baseUrl c @ fst (path_pieces ''/bybit'' req)
                @ (if snd (path_pieces ''/bybit'' req) \<noteq> []
                   then ''?'' @ snd (path_pieces ''/bybit'' req) else [])"
    by blast
  have "fst (path_pieces ''/bybit'' req)
          @ (if snd (path_pieces ''/bybit'' req) \<noteq> []
             then ''?'' @ snd (path_pieces ''/bybit'' req) else [])
        = replace_prefix ''/bybit'' (originalUrl req)"
  proof (cases "url_query (replace_prefix ''/bybit'' (originalUrl req))")
    case None
    then show ?thesis
      by (simp add: path_pieces_def first_two_split path_without_query)
  next
    case (Some q)
    with assms(2) have "q \<noteq> []" "before_question_mark q = q"
      by (simp_all add: before_question_mark_id)
    with Some path_query_join [OF Some] show ?thesis
      by (simp add: path_pieces_def first_two_split)
  qed
  with u c show ?thesis by auto
qed

lemma mustAuth_get_note: "mustAuth env_example req_get_note = None"
  by (simp add: req_get_note_def env_example_def string_ops config_ops handler_ops)

lemma prepare_get_note: "bybit_prepare env_example req_get_note = Inr args_get_note"
  by (simp add: req_get_note_def args_get_note_def env_example_def string_ops config_ops
      handler_ops json_ops Let_def)

text \<open>
  Claim C3.  For every GET request the signing payload is the request's query string
  without the leading question mark, and the empty string when there is no query
  string.  The handler does not do this for a query string that contains a question
  mark: for \<open>GET /bybit/v5/market/tickers?category=linear&note=a?b\<close> the query string is
  \<open>category=linear&note=a?b\<close>, the signed payload is \<open>category=linear&note=a\<close>.
\<close>

theorem GET_payload_drops_query_after_question_mark:
  "toUpperCase (req_method req_get_note) = ''GET''
   \<and> url_query (originalUrl req_get_note) = Some ''category=linear&note=a?b''
   \<and> bybit_prepare env_example req_get_note = Inr args_get_note
   \<and> fa_payload args_get_note = ''category=linear&note=a''
   \<and> calls (bybit_handler env_example upstream_ok 1700000000000 req_get_note) =
       [(fa_url args_get_note, signed_opts env_example 1700000000000 args_get_note)]"
  by (simp add: prepare_get_note calls_bybit_handler mustAuth_get_note)
     (simp add: req_get_note_def args_get_note_def url_query_def string_ops)

text \<open>
  Claim C4.  The outbound URL is the base URL followed by the incoming target without
  the routing prefix, path and query unchanged, also when the query string contains a
  question mark.  The handler does not do this: for
  \<open>GET /bybit/v5/market/tickers?category=linear&note=a?b\<close> it calls
  \<open>https://api-demo-testnet.bybit.com/v5/market/tickers?category=linear&note=a\<close>, the
  query string cut at its question mark.
\<close>

theorem url_drops_query_after_question_mark:
  "replace_prefix ''/bybit'' (originalUrl req_get_note) = ''/v5/market/tickers?category=linear&note=a?b''
   \<and> calls (bybit_handler env_example upstream_ok 1700000000000 req_get_note) =
       [(''https://api-demo-testnet.bybit.com/v5/market/tickers?category=linear&note=a'',
         signed_opts env_example 1700000000000 args_get_note)]
   \<and> ''https://api-demo-testnet.bybit.com/v5/market/tickers?category=linear&note=a''
       \<noteq> BYBIT_DEMO @ replace_prefix ''/bybit'' (originalUrl req_get_note)"
  by (simp add: prepare_get_note calls_bybit_handler mustAuth_get_note)
     (simp add: req_get_note_def args_get_note_def string_ops BYBIT_DEMO_def)

subsection \<open>The proxy token\<close>

lemma mustAuth_nbsp_token: "mustAuth env_example req_nbsp_token = None"
  by (simp add: req_nbsp_token_def req_get_time_def env_example_def string_ops config_ops handler_ops)

lemma prepare_nbsp_token: "bybit_prepare env_example req_nbsp_token = Inr args_get_time"
  by (simp add: req_nbsp_token_def req_get_time_def args_get_time_def env_example_def string_ops
      config_ops handler_ops json_ops Let_def)

text \<open>
  Claim C5, as stated: the request is answered with status 401 whenever the presented
  token does not equal the configured token.  This fails: with the token \<open>s3cret\<close>
  configured, the header value \<open>s3cret\<close> followed by a no-break space is not equal to
  it, yet the request passes the gate, \<open>fetch\<close> is invoked and the upstream's reply is
  relayed with its status 200.
\<close>

theorem differing_token_reaches_upstream:
  "PROXY_TOKEN env_example = ''s3cret''
   \<and> header req_nbsp_token ''X-PROXY-TOKEN'' = Some (''s3cret'' @ [CHR 0xA0])
   \<and> ''s3cret'' @ [CHR 0xA0] \<noteq> PROXY_TOKEN env_example
   \<and> bybit_handler env_example upstream_ok 1700000000000 req_nbsp_token =
       \<lparr>calls = [(''https://api-demo-testnet.bybit.com/v5/market/time'',
                   signed_opts env_example 1700000000000 args_get_time)],
        reply = Sent 200 ''application/json'' ''{}''\<rparr>"
  by (simp add: bybit_handler_def forwardToBybit_def mustAuth_nbsp_token prepare_nbsp_token
        upstream_ok_def infer_content_type_def Let_def)
     (simp add: req_nbsp_token_def req_get_time_def args_get_time_def env_example_def header_def
        string_ops config_ops)

text \<open>
  Claim C5, amended.  When no proxy token is configured the request is answered with
  status 500 (\<open>PROXY_TOKEN not set\<close>); when one is configured and the presented token
  with its leading and trailing white space removed (empty when the \<open>X-PROXY-TOKEN\<close>
  header is absent) is not equal to it, the request is answered with status 401
  (\<open>Unauthorized\<close>); in both cases \<open>fetch\<close> is not invoked.
\<close>

theorem auth_gate_failures:
  "(PROXY_TOKEN env = [] \<longrightarrow>
      bybit_handler env fetch now req =
        \<lparr>calls = [], reply = Json 500 (JObj [(''error'', JStr ''PROXY_TOKEN not set'')])\<rparr>)
   \<and> (PROXY_TOKEN env \<noteq> [] \<and> trim (or_empty (header req ''X-PROXY-TOKEN'')) \<noteq> PROXY_TOKEN env \<longrightarrow>
      bybit_handler env fetch now req =
        \<lparr>calls = [], reply = Json 401 (JObj [(''error'', JStr ''Unauthorized'')])\<rparr>)"
  by (simp add: bybit_handler_def mustAuth_def Let_def)

theorem auth_gate_failures_witness:
  "PROXY_TOKEN env_no_token = []
   \<and> bybit_handler env_no_token upstream_ok 1700000000000 req_get_time =
        \<lparr>calls = [], reply = Json 500 (JObj [(''error'', JStr ''PROXY_TOKEN not set'')])\<rparr>
   \<and> PROXY_TOKEN env_example \<noteq> []
   \<and> trim (or_empty (header req_wrong_token ''X-PROXY-TOKEN'')) \<noteq> PROXY_TOKEN env_example
   \<and> bybit_handler env_example upstream_ok 1700000000000 req_wrong_token =
        \<lparr>calls = [], reply = Json 401 (JObj [(''error'', JStr ''Unauthorized'')])\<rparr>"
proof -
  have a: "PROXY_TOKEN env_no_token = []"
    by (simp add: env_no_token_def string_ops config_ops)
  have b: "PROXY_TOKEN env_example \<noteq> []"
    by (simp add: env_example_def string_ops config_ops)
  have c: "trim (or_empty (header req_wrong_token ''X-PROXY-TOKEN'')) \<noteq> PROXY_TOKEN env_example"
    by (simp add: req_wrong_token_def req_get_time_def env_example_def header_def string_ops config_ops)
  from auth_gate_failures [of env_no_token upstream_ok 1700000000000 req_get_time]
       auth_gate_failures [of env_example upstream_ok 1700000000000 req_wrong_token] a b c
  show ?thesis by simp
qed

lemma mustAuth_padded_token: "mustAuth env_example req_padded_token = None"
  by (simp add: req_padded_token_def req_get_time_def env_example_def string_ops config_ops handler_ops)

lemma prepare_padded_token: "bybit_prepare env_example req_padded_token = Inr args_get_time"
  by (simp add: req_padded_token_def req_get_time_def args_get_time_def env_example_def string_ops
      config_ops handler_ops json_ops Let_def)

text \<open>
  Claim C6, as stated: every presented token that differs from the configured token,
  be it only in leading or trailing white space, is rejected with \<open>Unauthorized\<close>.
  This fails: with the token \<open>s3cret\<close> configured, the header value \<open>s3cret\<close> followed
  by a space is a different string, yet the gate lets it pass and the upstream is called;
  so it is with \<open>s3cret\<close> followed by a no-break space.
\<close>

theorem padded_token_is_accepted:
  "PROXY_TOKEN env_example = ''s3cret''
   \<and> header req_padded_token ''X-PROXY-TOKEN'' = Some ''s3cret ''
   \<and> ''s3cret '' \<noteq> PROXY_TOKEN env_example
   \<and> mustAuth env_example req_padded_token \<noteq> Some (Json 401 (JObj [(''error'', JStr ''Unauthorized'')]))
   \<and> mustAuth env_example req_padded_token = None
   \<and> calls (bybit_handler env_example upstream_ok 1700000000000 req_padded_token) =
       [(''https://api-demo-testnet.bybit.com/v5/market/time'',
         signed_opts env_example 1700000000000 args_get_time)]
   \<and> header req_nbsp_token ''X-PROXY-TOKEN'' = Some (''s3cret'' @ [CHR 0xA0])
   \<and> ''s3cret'' @ [CHR 0xA0] \<noteq> PROXY_TOKEN env_example
   \<and> mustAuth env_example req_nbsp_token = None"
  by (simp add: calls_bybit_handler mustAuth_padded_token prepare_padded_token mustAuth_nbsp_token)
     (simp add: req_padded_token_def req_nbsp_token_def req_get_time_def args_get_time_def
       env_example_def header_def string_ops config_ops)

text \<open>
  Claim C6, amended.  For every configured token and every presented header value, the
  gate rejects with \<open>Unauthorized\<close> when the value with its leading and trailing white
  space removed differs from the configured token, and lets the request pass when the
  two are equal: a presented token that differs from the configured one only in
  leading or trailing white space is accepted.
\<close>

theorem auth_gate_compares_trimmed_token:
  assumes "PROXY_TOKEN env \<noteq> []"
  shows "(trim (or_empty (header req ''X-PROXY-TOKEN'')) \<noteq> PROXY_TOKEN env \<longrightarrow>
            mustAuth env req = Some (Json 401 (JObj [(''error'', JStr ''Unauthorized'')])))
       \<and> (trim (or_empty (header req ''X-PROXY-TOKEN'')) = PROXY_TOKEN env \<longrightarrow> mustAuth env req = None)"
  using assms by (simp add: mustAuth_def Let_def)

theorem auth_gate_compares_trimmed_token_witness:
  "PROXY_TOKEN env_example \<noteq> []
   \<and> trim (or_empty (header req_wrong_token ''X-PROXY-TOKEN'')) \<noteq> PROXY_TOKEN env_example
   \<and> mustAuth env_example req_wrong_token = Some (Json 401 (JObj [(''error'', JStr ''Unauthorized'')]))
   \<and> trim (or_empty (header req_nbsp_token ''X-PROXY-TOKEN'')) = PROXY_TOKEN env_example
   \<and> mustAuth env_example req_nbsp_token = None"
proof -
  have b: "PROXY_TOKEN env_example \<noteq> []"
    by (simp add: env_example_def string_ops config_ops)
  have c: "trim (or_empty (header req_wrong_token ''X-PROXY-TOKEN'')) \<noteq> PROXY_TOKEN env_example"
    by (simp add: req_wrong_token_def req_get_time_def env_example_def header_def string_ops config_ops)
  have d: "trim (or_empty (header req_nbsp_token ''X-PROXY-TOKEN'')) = PROXY_TOKEN env_example"
    by (simp add: req_nbsp_token_def req_get_time_def env_example_def header_def string_ops config_ops)
  from auth_gate_compares_trimmed_token [OF b, of req_wrong_token]
       auth_gate_compares_trimmed_token [OF b, of req_nbsp_token] b c d
  show ?thesis by simp
qed

subsection \<open>The environment selector\<close>







subsection \<open>The outbound body\<close>

lemma calls_proxyToBybit:
  "calls (proxyToBybit fetch req base prefix) =
     [(base @ replace_prefix (''/'' @ prefix) (originalUrl req), proxy_opts req)]"
  by (simp add: proxyToBybit_def Let_def split: sum.split prod.split)

lemma body_proxy_opts: "fo_body (proxy_opts req) = proxy_body (toUpperCase (req_method req)) (req_body req)"
  by (simp add: proxy_opts_def Let_def)

lemma calls_forwardToBybit: "fst (forwardToBybit env fetch now a) = [(fa_url a, signed_opts env now a)]"
  by (simp add: forwardToBybit_def Let_def)

text \<open>
  Claim C9, as stated: for every method other than GET and HEAD a body is sent.  This
  fails in the pass-through proxy: a POST whose parsed body is the empty string is
  forwarded without a body, and so is a POST whose \<open>req.body\<close> is \<open>undefined\<close>.
\<close>

theorem empty_text_body_is_not_forwarded:
  "toUpperCase (req_method req_post_empty_text) = ''POST''
   \<and> req_body req_post_empty_text = Some (JStr [])
   \<and> calls (mainnet_proxy upstream_ok req_post_empty_text) =
       [(''https://api.bybit.com/v5/order/create'', proxy_opts req_post_empty_text)]
   \<and> fo_body (proxy_opts req_post_empty_text) = None
   \<and> fo_body (proxy_opts (req_post_empty_text\<lparr>req_body := None\<rparr>)) = None"
  by (simp add: mainnet_proxy_def calls_proxyToBybit body_proxy_opts)
     (simp add: req_post_empty_text_def proxy_body_def BYBIT_MAINNET_def string_ops)

text \<open>
  Claim C9, amended.  Each forwarder invokes \<open>fetch\<close> once.  For GET no body is passed
  by either forwarder, and the pass-through forwarder passes none for HEAD.  For every
  method other than GET and HEAD the signing forwarder passes \<open>bodyJson\<close>; the
  pass-through forwarder passes the serialisation of an inbound body that is an object
  (\<open>null\<close> and arrays included), passes any other truthy inbound body as it is, and
  passes no body when the inbound body is \<open>undefined\<close> or falsy.
\<close>

theorem outbound_body_by_method:
  "(\<exists>opts. fst (forwardToBybit env fetch now a) = [(fa_url a, opts)]
      \<and> (fa_method a = ''GET'' \<longrightarrow> fo_body opts = None)
      \<and> (fa_method a \<noteq> ''GET'' \<and> fa_method a \<noteq> ''HEAD'' \<longrightarrow> fo_body opts = Some (fa_bodyJson a)))
   \<and> (\<exists>url opts. calls (proxyToBybit fetch' req base prefix) = [(url, opts)]
      \<and> (toUpperCase (req_method req) = ''GET'' \<or> toUpperCase (req_method req) = ''HEAD'' \<longrightarrow>
            fo_body opts = None)
      \<and> (toUpperCase (req_method req) \<noteq> ''GET'' \<and> toUpperCase (req_method req) \<noteq> ''HEAD'' \<longrightarrow>
            fo_body opts =
              (case req_body req of None \<Rightarrow> None
               | Some v \<Rightarrow> if typeof_object v then Some (JStr (JSON_stringify v))
                           else if truthy v then Some v else None)))"
  by (simp add: calls_forwardToBybit body_signed_opts calls_proxyToBybit body_proxy_opts proxy_body_def)

theorem outbound_body_by_method_witness:
  \<open>fa_method args_get_time = ''GET''
   \<and> fst (forwardToBybit env_example upstream_ok 1700000000000 args_get_time) =
       [(fa_url args_get_time, signed_opts env_example 1700000000000 args_get_time)]
   \<and> fo_body (signed_opts env_example 1700000000000 args_get_time) = None
   \<and> fa_method args_post_order \<noteq> ''GET'' \<and> fa_method args_post_order \<noteq> ''HEAD''
   \<and> fo_body (signed_opts env_example 1700000000000 args_post_order) = Some ''{"symbol":"BTCUSDT"}''
   \<and> toUpperCase (req_method req_head_time) = ''HEAD''
   \<and> fo_body (proxy_opts req_head_time) = None
   \<and> toUpperCase (req_method req_proxy_post) \<noteq> ''GET'' \<and> toUpperCase (req_method req_proxy_post) \<noteq> ''HEAD''
   \<and> fo_body (proxy_opts req_proxy_post) = Some (JStr ''{"symbol":"BTCUSDT"}'')\<close>
proof -
  have m: "fa_method args_get_time = ''GET''"
    "fa_method args_post_order \<noteq> ''GET''" "fa_method args_post_order \<noteq> ''HEAD''"
    "toUpperCase (req_method req_head_time) = ''HEAD''"
    "toUpperCase (req_method req_proxy_post) \<noteq> ''GET''" "toUpperCase (req_method req_proxy_post) \<noteq> ''HEAD''"
    by (simp_all add: args_get_time_def args_post_order_def req_head_time_def req_proxy_post_def string_ops)
  have b: \<open>fa_bodyJson args_post_order = ''{"symbol":"BTCUSDT"}''\<close>
    \<open>(case req_body req_proxy_post of None \<Rightarrow> None
       | Some v \<Rightarrow> if typeof_object v then Some (JStr (JSON_stringify v))
                   else if truthy v then Some v else None) = Some (JStr ''{"symbol":"BTCUSDT"}'')\<close>
    by (simp_all add: args_post_order_def req_proxy_post_def json_ops)
  from outbound_body_by_method
         [of env_example upstream_ok 1700000000000 args_get_time upstream_ok req_head_time BYBIT_MAINNET "''mainnet''"]
       outbound_body_by_method
         [of env_example upstream_ok 1700000000000 args_post_order upstream_ok req_proxy_post BYBIT_MAINNET "''mainnet''"]
       m b
  show ?thesis
    by (simp add: calls_forwardToBybit calls_proxyToBybit)
qed

text \<open>
  The signing forwarder tests for GET only, where the pass-through forwarder tests for
  GET and HEAD: a HEAD request is given \<open>bodyJson\<close> as its body.
\<close>

lemma signing_forwarder_attaches_body_to_HEAD:
  "fa_method a = ''HEAD'' \<Longrightarrow>
     fst (forwardToBybit env fetch now a) = [(fa_url a, signed_opts env now a)]
     \<and> fo_body (signed_opts env now a) = Some (fa_bodyJson a)"
  by (simp add: calls_forwardToBybit body_signed_opts)

lemma calls_route_handler:
  "calls (route_handler env fetch now name req) =
     [(fao_url (route_prepare env name req), optional_opts env now (route_prepare env name req))]"
  by (simp add: route_handler_def mustAuth_open_def forwardToBybit_optional_def Let_def
      split: sum.split prod.split)

lemma route_prepare_payload:
  "(fao_payload (route_prepare env name req), fao_bodyJson (route_prepare env name req)) =
     payload_rules (toUpperCase (req_method req)) (snd (path_pieces (''/'' @ name) req)) (req_body req)"
  by (simp add: route_prepare_def Let_def split: prod.split)

lemma route_prepare_method: "fao_method (route_prepare env name req) = toUpperCase (req_method req)"
  by (simp add: route_prepare_def Let_def split: prod.split)

lemma body_optional_opts:
  "fo_body (optional_opts env now a) = (if fao_method a \<noteq> ''GET'' then Some (fao_bodyJson a) else None)"
  by (simp add: optional_opts_def Let_def)

lemma sign_header_optional_opts:
  "map_of (fo_headers (optional_opts env now a)) ''X-BAPI-SIGN'' =
     (case both_truthy (fao_apiKey a) (fao_secret a) of None \<Rightarrow> None
      | Some (k, s) \<Rightarrow> Some (signBybit \<lparr>timestamp = decimal now, apiKey = k, secret = s,
                                        recvWindow = RECV_WINDOW env, payload = fao_payload a\<rparr>))"
  by (simp add: optional_opts_def Let_def split: option.split prod.split)

lemma stringify_absent: "b = None \<or> b = Some JNull \<Longrightarrow> JSON_stringify (nullish_empty_object b) = ''{}''"
  by (auto simp: nullish_empty_object_def)

lemma QuoteJSONString_not_empty: "QuoteJSONString s \<noteq> []"
  by (simp add: QuoteJSONString_def)

lemma JSON_stringify_not_empty: "v \<noteq> JNum [] \<Longrightarrow> JSON_stringify v \<noteq> []"
  by (cases v) (simp_all add: QuoteJSONString_not_empty)

lemma stringify_body_not_empty:
  "b \<noteq> Some (JNum []) \<Longrightarrow> JSON_stringify (nullish_empty_object b) \<noteq> []"
  by (rule JSON_stringify_not_empty) (auto simp: nullish_empty_object_def split: option.splits json.splits)

lemma non_GET_payload_rules:
  "m \<noteq> ''GET'' \<Longrightarrow> payload_rules m qs b =
     (JSON_stringify (nullish_empty_object b), JSON_stringify (nullish_empty_object b))"
  by (simp add: payload_rules_def Let_def)

lemma route_prepare_keys:
  "fao_apiKey (route_prepare env name req) = co_apiKey (credsFor_optional env name)"
  "fao_secret (route_prepare env name req) = co_secret (credsFor_optional env name)"
  by (simp_all add: route_prepare_def Let_def split: prod.split)

text \<open>
  Claim C10.  For every request whose method is not GET and whose parsed body is
  \<open>undefined\<close> or \<open>null\<close>, every invocation of \<open>fetch\<close> passes the two characters
  \<open>{}\<close> as body and the signature is computed over the payload \<open>{}\<close>.  The handler of
  \<open>/bybit/*\<close> signs with the key and secret of the selected environment.  The
  handlers of \<open>/mainnet/*\<close> and \<open>/testnet/*\<close> invoke \<open>fetch\<close> once; they sign, with
  the key and secret of their environment, exactly when both are configured, and send
  no signature header otherwise.  Whatever the parsed body, the body passed for a method
  other than GET is never the empty string (a number being rendered by at least one
  character).
\<close>

theorem absent_body_is_sent_and_signed_as_empty_object:
  assumes "toUpperCase (req_method req) \<noteq> ''GET''"
  shows "(req_body req = None \<or> req_body req = Some JNull \<longrightarrow>
            (\<forall>c \<in> set (calls (bybit_handler env fetch now req)).
               fo_body (snd c) = Some ''{}''
               \<and> (\<exists>e cr. pickEnv req = Inr e \<and> credsFor env e = Inr cr
                      \<and> map_of (fo_headers (snd c)) ''X-BAPI-SIGN'' =
                          Some (signBybit \<lparr>timestamp = decimal now, apiKey = creds_apiKey cr,
                                           secret = creds_secret cr, recvWindow = RECV_WINDOW env,
                                           payload = ''{}''\<rparr>)))
            \<and> (\<exists>url opts. calls (route_handler env fetch now name req) = [(url, opts)]
                 \<and> fo_body opts = Some ''{}''
                 \<and> map_of (fo_headers opts) ''X-BAPI-SIGN'' =
                     (case both_truthy (co_apiKey (credsFor_optional env name))
                                       (co_secret (credsFor_optional env name)) of
                        None \<Rightarrow> None
                      | Some (k, s) \<Rightarrow>
                          Some (signBybit \<lparr>timestamp = decimal now, apiKey = k, secret = s,
                                           recvWindow = RECV_WINDOW env, payload = ''{}''\<rparr>))))
       \<and> (req_body req \<noteq> Some (JNum []) \<longrightarrow>
            (\<forall>c \<in> set (calls (bybit_handler env fetch now req)).
               \<exists>b. fo_body (snd c) = Some b \<and> b \<noteq> [])
            \<and> (\<exists>url opts b. calls (route_handler env fetch now name req) = [(url, opts)]
                 \<and> fo_body opts = Some b \<and> b \<noteq> []))"
proof -
  let ?json = "JSON_stringify (nullish_empty_object (req_body req))"
  have bybit: "fo_body (snd c) = Some ?json
        \<and> (\<exists>e cr. pickEnv req = Inr e \<and> credsFor env e = Inr cr
               \<and> map_of (fo_headers (snd c)) ''X-BAPI-SIGN'' =
                   Some (signBybit \<lparr>timestamp = decimal now, apiKey = creds_apiKey cr,
                                    secret = creds_secret cr, recvWindow = RECV_WINDOW env,
                                    payload = ?json\<rparr>))"
    if "c \<in> set (calls (bybit_handler env fetch now req))" for c
  proof -
    from that have "(fst c, snd c) \<in> set (calls (bybit_handler env fetch now req))" by simp
    from in_calls_bybit_handler [OF this]
    obtain a where a: "bybit_prepare env req = Inr a" and opts: "snd c = signed_opts env now a"
      by blast
    from bybit_prepare_Inr [OF a] obtain e cr
      where cr: "pickEnv req = Inr e" "credsFor env e = Inr cr"
        and k: "fa_apiKey a = creds_apiKey cr" "fa_secret a = creds_secret cr"
        and m: "fa_method a = toUpperCase (req_method req)"
        and p: "(fa_payload a, fa_bodyJson a) =
                  payload_rules (toUpperCase (req_method req)) (snd (path_pieces ''/bybit'' req)) (req_body req)"
      by blast
    from p assms have "fa_payload a = ?json" "fa_bodyJson a = ?json"
      by (simp_all add: non_GET_payload_rules)
    with opts m k cr assms show ?thesis
      by (intro conjI exI [of _ e] exI [of _ cr]) (simp_all add: sign_header_signed_opts body_signed_opts)
  qed
  let ?a = "route_prepare env name req"
  have pj: "fao_payload ?a = ?json" "fao_bodyJson ?a = ?json"
    using assms route_prepare_payload [of env name req] by (simp_all add: non_GET_payload_rules)
  have route: "calls (route_handler env fetch now name req) = [(fao_url ?a, optional_opts env now ?a)]"
    "fo_body (optional_opts env now ?a) = Some ?json"
    "map_of (fo_headers (optional_opts env now ?a)) ''X-BAPI-SIGN'' =
       (case both_truthy (co_apiKey (credsFor_optional env name))
                         (co_secret (credsFor_optional env name)) of
          None \<Rightarrow> None
        | Some (k, s) \<Rightarrow>
            Some (signBybit \<lparr>timestamp = decimal now, apiKey = k, secret = s,
                             recvWindow = RECV_WINDOW env, payload = ?json\<rparr>))"
    using assms pj
    by (simp_all add: calls_route_handler body_optional_opts route_prepare_method
        sign_header_optional_opts route_prepare_keys split: option.split)
  show ?thesis
  proof (intro conjI impI)
    assume "req_body req = None \<or> req_body req = Some JNull"
    then have e: "?json = ''{}''" by (rule stringify_absent)
    from bybit e show "\<forall>c \<in> set (calls (bybit_handler env fetch now req)).
               fo_body (snd c) = Some ''{}''
               \<and> (\<exists>e cr. pickEnv req = Inr e \<and> credsFor env e = Inr cr
                      \<and> map_of (fo_headers (snd c)) ''X-BAPI-SIGN'' =
                          Some (signBybit \<lparr>timestamp = decimal now, apiKey = creds_apiKey cr,
                                           secret = creds_secret cr, recvWindow = RECV_WINDOW env,
                                           payload = ''{}''\<rparr>))"
      by simp
    from route e show "\<exists>url opts. calls (route_handler env fetch now name req) = [(url, opts)]
                 \<and> fo_body opts = Some ''{}''
                 \<and> map_of (fo_headers opts) ''X-BAPI-SIGN'' =
                     (case both_truthy (co_apiKey (credsFor_optional env name))
                                       (co_secret (credsFor_optional env name)) of
                        None \<Rightarrow> None
                      | Some (k, s) \<Rightarrow>
                          Some (signBybit \<lparr>timestamp = decimal now, apiKey = k, secret = s,
                                           recvWindow = RECV_WINDOW env, payload = ''{}''\<rparr>))"
      by (simp split: option.split)
  next
    assume "req_body req \<noteq> Some (JNum [])"
    then have ne: "?json \<noteq> []" by (rule stringify_body_not_empty)
    from bybit ne show "\<forall>c \<in> set (calls (bybit_handler env fetch now req)).
               \<exists>b. fo_body (snd c) = Some b \<and> b \<noteq> []"
      by simp
    from route ne show "\<exists>url opts b. calls (route_handler env fetch now name req) = [(url, opts)]
                 \<and> fo_body opts = Some b \<and> b \<noteq> []"
      by simp
  qed
qed

lemma mustAuth_post_nobody: "mustAuth env_example req_post_nobody = None"
  by (simp add: req_post_nobody_def env_example_def string_ops config_ops handler_ops)

lemma prepare_post_nobody: "bybit_prepare env_example req_post_nobody = Inr args_post_nobody"
  by (simp add: req_post_nobody_def args_post_nobody_def env_example_def string_ops config_ops
      handler_ops json_ops Let_def)

lemma pickEnv_post_nobody: "pickEnv req_post_nobody = Inr ''demo''"
  by (simp add: req_post_nobody_def handler_ops string_ops Let_def)

lemma credsFor_demo_example:
  "credsFor env_example ''demo'' =
     Inr \<lparr>baseUrl = BYBIT_DEMO, creds_apiKey = ''demoKey'', creds_secret = ''demoSecret''\<rparr>"
  by (simp add: credsFor_def env_example_def config_ops string_ops)

lemma keys_testnet_example:
  "both_truthy (co_apiKey (credsFor_optional env_example ''testnet''))
               (co_secret (credsFor_optional env_example ''testnet'')) = Some (''demoKey'', ''demoSecret'')"
  by (simp add: both_truthy_def credsFor_optional_def or_null_def env_example_def config_ops string_ops)

lemma keys_mainnet_missing:
  "both_truthy (co_apiKey (credsFor_optional env_no_token ''mainnet''))
               (co_secret (credsFor_optional env_no_token ''mainnet'')) = None"
  by (simp add: both_truthy_def credsFor_optional_def or_null_def env_no_token_def config_ops string_ops)

theorem absent_body_is_sent_and_signed_as_empty_object_witness:
  "toUpperCase (req_method req_post_nobody) \<noteq> ''GET''
   \<and> req_body req_post_nobody = None
   \<and> calls (bybit_handler env_example upstream_ok 1700000000000 req_post_nobody) =
       [(''https://api-demo-testnet.bybit.com/v5/order/cancel-all'',
         signed_opts env_example 1700000000000 args_post_nobody)]
   \<and> fo_body (signed_opts env_example 1700000000000 args_post_nobody) = Some ''{}''
   \<and> map_of (fo_headers (signed_opts env_example 1700000000000 args_post_nobody)) ''X-BAPI-SIGN'' =
        Some (signBybit \<lparr>timestamp = decimal 1700000000000, apiKey = ''demoKey'', secret = ''demoSecret'',
                         recvWindow = RECV_WINDOW env_example, payload = ''{}''\<rparr>)
   \<and> toUpperCase (req_method req_post_null) \<noteq> ''GET''
   \<and> req_body req_post_null = Some JNull
   \<and> (\<exists>url opts. calls (route_handler env_example upstream_ok 1700000000000 ''testnet'' req_post_null) = [(url, opts)]
        \<and> fo_body opts = Some ''{}''
        \<and> map_of (fo_headers opts) ''X-BAPI-SIGN'' =
            Some (signBybit \<lparr>timestamp = decimal 1700000000000, apiKey = ''demoKey'', secret = ''demoSecret'',
                             recvWindow = RECV_WINDOW env_example, payload = ''{}''\<rparr>))
   \<and> toUpperCase (req_method req_post_null_mainnet) \<noteq> ''GET''
   \<and> req_body req_post_null_mainnet = Some JNull
   \<and> (\<exists>url opts. calls (route_handler env_no_token upstream_ok 1700000000000 ''mainnet'' req_post_null_mainnet) = [(url, opts)]
        \<and> fo_body opts = Some ''{}''
        \<and> map_of (fo_headers opts) ''X-BAPI-SIGN'' = None)"
proof -
  have m: "toUpperCase (req_method req_post_nobody) \<noteq> ''GET''"
    "toUpperCase (req_method req_post_null) \<noteq> ''GET''"
    "toUpperCase (req_method req_post_null_mainnet) \<noteq> ''GET''"
    by (simp_all add: req_post_nobody_def req_post_null_def req_post_null_mainnet_def string_ops)
  have b: "req_body req_post_nobody = None" "req_body req_post_null = Some JNull"
    "req_body req_post_null_mainnet = Some JNull"
    by (simp_all add: req_post_nobody_def req_post_null_def req_post_null_mainnet_def)
  have c: "calls (bybit_handler env_example upstream_ok 1700000000000 req_post_nobody) =
       [(''https://api-demo-testnet.bybit.com/v5/order/cancel-all'',
         signed_opts env_example 1700000000000 args_post_nobody)]"
    by (simp add: calls_bybit_handler mustAuth_post_nobody prepare_post_nobody) (simp add: args_post_nobody_def)
  from absent_body_is_sent_and_signed_as_empty_object
         [OF m(1), of env_example upstream_ok 1700000000000 "''testnet''"] b(1) c
  have signed: "fo_body (signed_opts env_example 1700000000000 args_post_nobody) = Some ''{}''
     \<and> map_of (fo_headers (signed_opts env_example 1700000000000 args_post_nobody)) ''X-BAPI-SIGN'' =
          Some (signBybit \<lparr>timestamp = decimal 1700000000000, apiKey = ''demoKey'', secret = ''demoSecret'',
                           recvWindow = RECV_WINDOW env_example, payload = ''{}''\<rparr>)"
    by (simp add: pickEnv_post_nobody credsFor_demo_example)
  from absent_body_is_sent_and_signed_as_empty_object
         [OF m(2), of env_example upstream_ok 1700000000000 "''testnet''"] b(2)
  have testnet: "\<exists>url opts. calls (route_handler env_example upstream_ok 1700000000000 ''testnet'' req_post_null) = [(url, opts)]
        \<and> fo_body opts = Some ''{}''
        \<and> map_of (fo_headers opts) ''X-BAPI-SIGN'' =
            Some (signBybit \<lparr>timestamp = decimal 1700000000000, apiKey = ''demoKey'', secret = ''demoSecret'',
                             recvWindow = RECV_WINDOW env_example, payload = ''{}''\<rparr>)"
    by (simp add: keys_testnet_example)
  from absent_body_is_sent_and_signed_as_empty_object
         [OF m(3), of env_no_token upstream_ok 1700000000000 "''mainnet''"] b(3)
  have mainnet: "\<exists>url opts. calls (route_handler env_no_token upstream_ok 1700000000000 ''mainnet'' req_post_null_mainnet) = [(url, opts)]
        \<and> fo_body opts = Some ''{}''
        \<and> map_of (fo_headers opts) ''X-BAPI-SIGN'' = None"
    by (simp add: keys_mainnet_missing)
  from signed testnet mainnet m b c show ?thesis by simp
qed

end
